theory Spec2Isabelle
  imports Main "HOL-Library.Word"
begin

section \<open>MyTinySTL: allocator, type traits and pair\<close>

text \<open>
  A shallow embedding of \<^verbatim>\<open>allocator.h\<close>, \<^verbatim>\<open>type_traits.h\<close> and
  \<^verbatim>\<open>util.h\<close>. Templates become polymorphic definitions; what a template takes
  from outside the three headers (the global \<^verbatim>\<open>operator new\<close>, \<^verbatim>\<open>sizeof(T)\<close>,
  the element types' own operators, the initialization rules behind
  \<^verbatim>\<open><type_traits>\<close>) is a parameter of the definition.
\<close>

subsection \<open>allocator.h\<close>

text \<open>
  \<^verbatim>\<open>size_t\<close> and \<^verbatim>\<open>T*\<close> are words of the platform's width \<open>'w\<close>, so that
  \<open>*\<close> wraps as unsigned arithmetic does. The system allocator is observed through
  the list of calls made to it; what \<^verbatim>\<open>::operator new\<close> answers (an address, or
  \<^verbatim>\<open>std::bad_alloc\<close>) is a parameter that may depend on the calls so far.
\<close>

datatype ('sz, 'p) syscall = OperatorNew 'sz | OperatorDelete 'p

datatype error = BadAlloc

type_synonym 'w system = "('w word, 'w word) syscall list"

type_synonym 'w new_policy = "'w system \<Rightarrow> 'w word \<Rightarrow> 'w word option"

definition nullptr :: "'w::len word" where
  "nullptr = 0"

definition SIZE_MAX :: "'w::len word" where
  "SIZE_MAX = - 1"

definition operator_new ::
  "'w new_policy \<Rightarrow> 'w::len word \<Rightarrow> 'w system \<Rightarrow> (error + 'w word) \<times> 'w system" where
  "operator_new os sz s =
     (case os s sz of
        None \<Rightarrow> (Inl BadAlloc, s @ [OperatorNew sz])
      | Some p \<Rightarrow> (Inr p, s @ [OperatorNew sz]))"

definition operator_delete ::
  "'w::len word \<Rightarrow> 'w system \<Rightarrow> (error + unit) \<times> 'w system" where
  "operator_delete p s = (Inr (), s @ [OperatorDelete p])"

text \<open>\<^verbatim>\<open>allocate()\<close>: \<^verbatim>\<open>::operator new(sizeof(T))\<close>.\<close>

definition allocate ::
  "'w new_policy \<Rightarrow> 'w::len word \<Rightarrow> 'w system \<Rightarrow> (error + 'w word) \<times> 'w system" where
  "allocate os sizeof_T s = operator_new os sizeof_T s"

text \<open>\<^verbatim>\<open>allocate(size_type n)\<close>.\<close>

definition allocate_n ::
  "'w new_policy \<Rightarrow> 'w::len word \<Rightarrow> 'w word \<Rightarrow> 'w system \<Rightarrow> (error + 'w word) \<times> 'w system" where
  "allocate_n os sizeof_T n s =
     (if n = 0 then (Inr nullptr, s)
      else operator_new os (n * sizeof_T) s)"

text \<open>\<^verbatim>\<open>deallocate(T* ptr)\<close> and \<^verbatim>\<open>deallocate(T* ptr, size_type)\<close>.\<close>

definition deallocate ::
  "'w::len word \<Rightarrow> 'w system \<Rightarrow> (error + unit) \<times> 'w system" where
  "deallocate ptr s =
     (if ptr = nullptr then (Inr (), s)
      else operator_delete ptr s)"

definition deallocate_n ::
  "'w::len word \<Rightarrow> 'w word \<Rightarrow> 'w system \<Rightarrow> (error + unit) \<times> 'w system" where
  "deallocate_n ptr n s =
     (if ptr = nullptr then (Inr (), s)
      else operator_delete ptr s)"

text \<open>
  The number of bytes that \<open>n\<close> objects of size \<open>sizeof_T\<close> occupy, as a natural
  number (no wrap-around): the yardstick the requests are compared with.
\<close>

definition storage_for :: "'w::len word \<Rightarrow> 'w word \<Rightarrow> nat" where
  "storage_for n sizeof_T = unat n * unat sizeof_T"

text \<open>
  A system allocator to run the definitions on: it never fails and hands out
  addresses from 4096 upwards, past everything requested so far.
\<close>

fun bytes_requested :: "'w::len system \<Rightarrow> 'w word" where
  "bytes_requested [] = 0"
| "bytes_requested (OperatorNew sz # cs) = sz + bytes_requested cs"
| "bytes_requested (OperatorDelete p # cs) = bytes_requested cs"

definition bump_new :: "'w::len new_policy" where
  "bump_new s sz = Some (4096 + bytes_requested s)"

subsection \<open>type\_traits.h\<close>

text \<open>
  A type is a cv-unqualified object type (the base), a \<^verbatim>\<open>const\<close> flag and a
  reference kind; every value of \<open>ctype\<close> is a well-formed type, a reference to a
  reference cannot be written. \<open>class_type\<close> is a universe of bases in which
  \<^verbatim>\<open>mystl::pair<T1, T2>\<close> is a constructor of its own, next to fundamental types
  and classes given by their name and data members.
\<close>

datatype refkind = NoRef | LRef | RRef

datatype 'b ctype = CType (base: 'b) (is_const: bool) (ref: refkind)

datatype class_type =
    Fundamental string
  | Class string "(string \<times> class_type ctype) list"
  | PairOf "class_type ctype" "class_type ctype"

definition m_true_type :: bool where
  "m_true_type = True"

definition m_false_type :: bool where
  "m_false_type = False"

text \<open>
  \<^verbatim>\<open>is_pair\<close>: the partial specialization for \<^verbatim>\<open>mystl::pair<T1, T2>\<close> is chosen
  when the argument matches it, the primary template otherwise; in a \<^theory_text>\<open>fun\<close>
  the first matching equation wins, so the specialization comes first.
\<close>

fun is_pair :: "class_type ctype \<Rightarrow> bool" where
  "is_pair (CType (PairOf T1 T2) False NoRef) = m_true_type"
| "is_pair T = m_false_type"

subsection \<open>The standard traits used by pair\<close>

text \<open>
  \<^verbatim>\<open>const T\<close>, \<^verbatim>\<open>T&\<close> and \<^verbatim>\<open>T&&\<close> written on a template parameter:
  \<^verbatim>\<open>const\<close> on a reference type is ignored, and references collapse.
\<close>

fun add_const :: "'b ctype \<Rightarrow> 'b ctype" where
  "add_const (CType b c NoRef) = CType b True NoRef"
| "add_const (CType b c r) = CType b c r"

fun add_lvalue_reference :: "'b ctype \<Rightarrow> 'b ctype" where
  "add_lvalue_reference (CType b c r) = CType b c LRef"

fun add_rvalue_reference :: "'b ctype \<Rightarrow> 'b ctype" where
  "add_rvalue_reference (CType b c NoRef) = CType b c RRef"
| "add_rvalue_reference (CType b c r) = CType b c r"

text \<open>
  \<^verbatim>\<open><type_traits>\<close> is the standard header, not part of the three files. Its
  traits are defined by the C++ standard through the expression
  \<^verbatim>\<open>declval<From>()\<close>, of type \<^verbatim>\<open>From&&\<close>: \<^verbatim>\<open>is_constructible<T, Arg>\<close>
  holds when \<^verbatim>\<open>T t(declval<Arg>());\<close> is well-formed,
  \<^verbatim>\<open>is_convertible<From, To>\<close> when \<^verbatim>\<open>To f() { return declval<From>(); }\<close> is,
  and \<^verbatim>\<open>is_copy_constructible<T>\<close> is \<^verbatim>\<open>is_constructible<T, const T&>\<close>.
  Which initializations are well-formed depends on the program's types and is the
  parameter: \<open>direct_init T e\<close> for \<^verbatim>\<open>T t(e)\<close> and \<open>copy_init T e\<close> for
  \<^verbatim>\<open>T t = e\<close>, with \<open>e\<close> an expression given by its reference type (an lvalue
  reference for an lvalue, an rvalue reference for an rvalue).
\<close>

record 'b init_rules =
  direct_init :: "'b ctype \<Rightarrow> 'b ctype \<Rightarrow> bool"
  copy_init :: "'b ctype \<Rightarrow> 'b ctype \<Rightarrow> bool"

definition declval :: "'b ctype \<Rightarrow> 'b ctype" where
  "declval T = add_rvalue_reference T"

definition is_constructible :: "'b init_rules \<Rightarrow> 'b ctype \<Rightarrow> 'b ctype \<Rightarrow> bool" where
  "is_constructible L T Arg = direct_init L T (declval Arg)"

definition is_copy_constructible :: "'b init_rules \<Rightarrow> 'b ctype \<Rightarrow> bool" where
  "is_copy_constructible L T = is_constructible L T (add_lvalue_reference (add_const T))"

definition is_convertible :: "'b init_rules \<Rightarrow> 'b ctype \<Rightarrow> 'b ctype \<Rightarrow> bool" where
  "is_convertible L From To = copy_init L To (declval From)"

subsection \<open>util.h: the enable\_if conditions of pair's constructors\<close>

text \<open>
  One definition per constructor template, in the order of the header; the body is
  the condition inside \<^verbatim>\<open>std::enable_if\<close>, conjunct by conjunct. The two
  same-type constructors take \<^verbatim>\<open>U1 = Ty1, U2 = Ty2\<close> as defaulted template
  parameters.
\<close>

definition same_type_implicit_if ::
  "'b init_rules \<Rightarrow> 'b ctype \<Rightarrow> 'b ctype \<Rightarrow> 'b ctype \<Rightarrow> 'b ctype \<Rightarrow> bool" where
  "same_type_implicit_if L Ty1 Ty2 U1 U2 =
     (is_copy_constructible L U1 \<and>
      is_copy_constructible L U2 \<and>
      is_convertible L (add_lvalue_reference (add_const U1)) Ty1 \<and>
      is_convertible L (add_lvalue_reference (add_const U2)) Ty2)"

definition same_type_explicit_if ::
  "'b init_rules \<Rightarrow> 'b ctype \<Rightarrow> 'b ctype \<Rightarrow> 'b ctype \<Rightarrow> 'b ctype \<Rightarrow> bool" where
  "same_type_explicit_if L Ty1 Ty2 U1 U2 =
     (is_copy_constructible L U1 \<and>
      is_copy_constructible L U2 \<and>
      (\<not> is_convertible L (add_lvalue_reference (add_const U1)) Ty1 \<or>
       \<not> is_convertible L (add_lvalue_reference (add_const U2)) Ty2))"

definition forward_implicit_if ::
  "'b init_rules \<Rightarrow> 'b ctype \<Rightarrow> 'b ctype \<Rightarrow> 'b ctype \<Rightarrow> 'b ctype \<Rightarrow> bool" where
  "forward_implicit_if L Ty1 Ty2 Other1 Other2 =
     (is_constructible L Ty1 Other1 \<and>
      is_constructible L Ty2 Other2 \<and>
      is_convertible L (add_rvalue_reference Other1) Ty1 \<and>
      is_convertible L (add_rvalue_reference Other2) Ty2)"

definition forward_explicit_if ::
  "'b init_rules \<Rightarrow> 'b ctype \<Rightarrow> 'b ctype \<Rightarrow> 'b ctype \<Rightarrow> 'b ctype \<Rightarrow> bool" where
  "forward_explicit_if L Ty1 Ty2 Other1 Other2 =
     (is_constructible L Ty1 Other1 \<and>
      is_constructible L Ty2 Other2 \<and>
      (\<not> is_convertible L Other1 Ty1 \<or>
       \<not> is_convertible L Other2 Ty2))"

definition pair_copy_implicit_if ::
  "'b init_rules \<Rightarrow> 'b ctype \<Rightarrow> 'b ctype \<Rightarrow> 'b ctype \<Rightarrow> 'b ctype \<Rightarrow> bool" where
  "pair_copy_implicit_if L Ty1 Ty2 Other1 Other2 =
     (is_constructible L Ty1 (add_lvalue_reference (add_const Other1)) \<and>
      is_constructible L Ty2 (add_lvalue_reference (add_const Other2)) \<and>
      is_convertible L (add_lvalue_reference (add_const Other1)) Ty1 \<and>
      is_convertible L (add_lvalue_reference (add_const Other2)) Ty2)"

definition pair_copy_explicit_if ::
  "'b init_rules \<Rightarrow> 'b ctype \<Rightarrow> 'b ctype \<Rightarrow> 'b ctype \<Rightarrow> 'b ctype \<Rightarrow> bool" where
  "pair_copy_explicit_if L Ty1 Ty2 Other1 Other2 =
     (is_constructible L Ty1 (add_lvalue_reference (add_const Other1)) \<and>
      is_constructible L Ty2 (add_lvalue_reference (add_const Other2)) \<and>
      (\<not> is_convertible L (add_lvalue_reference (add_const Other1)) Ty1 \<or>
       \<not> is_convertible L (add_lvalue_reference (add_const Other2)) Ty2))"

definition pair_move_implicit_if ::
  "'b init_rules \<Rightarrow> 'b ctype \<Rightarrow> 'b ctype \<Rightarrow> 'b ctype \<Rightarrow> 'b ctype \<Rightarrow> bool" where
  "pair_move_implicit_if L Ty1 Ty2 Other1 Other2 =
     (is_constructible L Ty1 Other1 \<and>
      is_constructible L Ty2 Other2 \<and>
      is_convertible L Other1 Ty1 \<and>
      is_convertible L Other2 Ty2)"

definition pair_move_explicit_if ::
  "'b init_rules \<Rightarrow> 'b ctype \<Rightarrow> 'b ctype \<Rightarrow> 'b ctype \<Rightarrow> 'b ctype \<Rightarrow> bool" where
  "pair_move_explicit_if L Ty1 Ty2 Other1 Other2 =
     (is_constructible L Ty1 Other1 \<and>
      is_constructible L Ty2 Other2 \<and>
      (\<not> is_convertible L Other1 Ty1 \<or>
       \<not> is_convertible L Other2 Ty2))"

text \<open>
  The constructor templates by name, and the condition under which each takes part
  in overload resolution for target \<^verbatim>\<open>pair<Ty1, Ty2>\<close> and template arguments
  \<^verbatim>\<open>Other1\<close>, \<^verbatim>\<open>Other2\<close> (deduced from the two arguments, or from the
  argument pair's element types).
\<close>

datatype rule =
    SameTypeImplicit | SameTypeExplicit
  | ForwardImplicit | ForwardExplicit
  | PairCopyImplicit | PairCopyExplicit
  | PairMoveImplicit | PairMoveExplicit

fun enabled ::
  "'b init_rules \<Rightarrow> 'b ctype \<Rightarrow> 'b ctype \<Rightarrow> 'b ctype \<Rightarrow> 'b ctype \<Rightarrow> rule \<Rightarrow> bool" where
  "enabled L Ty1 Ty2 Other1 Other2 SameTypeImplicit = same_type_implicit_if L Ty1 Ty2 Ty1 Ty2"
| "enabled L Ty1 Ty2 Other1 Other2 SameTypeExplicit = same_type_explicit_if L Ty1 Ty2 Ty1 Ty2"
| "enabled L Ty1 Ty2 Other1 Other2 ForwardImplicit = forward_implicit_if L Ty1 Ty2 Other1 Other2"
| "enabled L Ty1 Ty2 Other1 Other2 ForwardExplicit = forward_explicit_if L Ty1 Ty2 Other1 Other2"
| "enabled L Ty1 Ty2 Other1 Other2 PairCopyImplicit = pair_copy_implicit_if L Ty1 Ty2 Other1 Other2"
| "enabled L Ty1 Ty2 Other1 Other2 PairCopyExplicit = pair_copy_explicit_if L Ty1 Ty2 Other1 Other2"
| "enabled L Ty1 Ty2 Other1 Other2 PairMoveImplicit = pair_move_implicit_if L Ty1 Ty2 Other1 Other2"
| "enabled L Ty1 Ty2 Other1 Other2 PairMoveExplicit = pair_move_explicit_if L Ty1 Ty2 Other1 Other2"

text \<open>
  The initialization rules of a program to run the conditions on. Its base types
  are \<^verbatim>\<open>int\<close> and \<^verbatim>\<open>struct Meters { explicit Meters(int); }\<close>, which
  is copyable and has no other conversion. A reference binds to an expression of its
  own base type as the language says: \<^verbatim>\<open>const T&\<close> to any, \<^verbatim>\<open>T&\<close> to a
  non-const lvalue only, \<^verbatim>\<open>T&&\<close> and \<^verbatim>\<open>const T&&\<close> to rvalues only and
  without dropping \<^verbatim>\<open>const\<close>; an object is initialized from any expression
  of its own base type. Across base types the only initialization is that of a
  \<^verbatim>\<open>Meters\<close> object from an \<^verbatim>\<open>int\<close>, and only as direct initialization,
  the constructor being explicit.
\<close>

datatype base_type = CInt | Meters

fun binds :: "refkind \<Rightarrow> bool \<Rightarrow> 'b ctype \<Rightarrow> bool" where
  "binds NoRef c e = True"
| "binds LRef c e = (c \<or> (ref e = LRef \<and> \<not> is_const e))"
| "binds RRef c e = (ref e \<noteq> LRef \<and> (c \<or> \<not> is_const e))"

fun initializes :: "bool \<Rightarrow> base_type ctype \<Rightarrow> base_type ctype \<Rightarrow> bool" where
  "initializes explicit_ok (CType b c r) e =
     (if base e = b then binds r c e
      else explicit_ok \<and> b = Meters \<and> base e = CInt \<and> r = NoRef)"

definition meters_rules :: "base_type init_rules" where
  "meters_rules = \<lparr> direct_init = initializes True, copy_init = initializes False \<rparr>"

definition int_type :: "base_type ctype" where
  "int_type = CType CInt False NoRef"

definition meters_type :: "base_type ctype" where
  "meters_type = CType Meters False NoRef"

subsection \<open>util.h: move, forward, pair\<close>

text \<open>
  \<^verbatim>\<open>move\<close> and \<^verbatim>\<open>forward\<close> are \<^verbatim>\<open>static_cast\<close>s between reference
  types: the object referred to is the same.
\<close>

definition move :: "'a \<Rightarrow> 'a" where
  "move arg = arg"

definition forward :: "'a \<Rightarrow> 'a" where
  "forward arg = arg"

record ('a, 'b) pair =
  first :: 'a
  second :: 'b

text \<open>
  What pair needs from an element type: its \<^verbatim>\<open>==\<close> and \<^verbatim>\<open><\<close>, its copy
  assignment (old destination and source give the new destination), its move
  assignment (they give the new destination and the state the source is left in) and
  its move constructor (the source gives the new object and the state it is left in).
\<close>

record 'a elem_ops =
  op_eq :: "'a \<Rightarrow> 'a \<Rightarrow> bool"
  op_lt :: "'a \<Rightarrow> 'a \<Rightarrow> bool"
  copy_assign :: "'a \<Rightarrow> 'a \<Rightarrow> 'a"
  move_assign :: "'a \<Rightarrow> 'a \<Rightarrow> 'a \<times> 'a"
  move_construct :: "'a \<Rightarrow> 'a \<times> 'a"

text \<open>
  Every call of an element operation is recorded, with the slot it acts on, so that
  a claim can say which element operations ran and in which order.
\<close>

datatype slot = First | Second

datatype event = Eq slot | Lt slot | CopyAssign slot | MoveAssign slot | MoveConstruct slot

type_synonym traced = "bool \<times> event list"

text \<open>
  \<^verbatim>\<open>a && b\<close>, \<^verbatim>\<open>a || b\<close> and \<^verbatim>\<open>!a\<close>: the right operand is evaluated (its
  events happen) only when the left one does not decide the result.
\<close>

definition and_then :: "traced \<Rightarrow> traced \<Rightarrow> traced" where
  "and_then a b = (if fst a then (fst b, snd a @ snd b) else (False, snd a))"

definition or_else :: "traced \<Rightarrow> traced \<Rightarrow> traced" where
  "or_else a b = (if fst a then (True, snd a) else (fst b, snd a @ snd b))"

definition negate :: "traced \<Rightarrow> traced" where
  "negate a = (\<not> fst a, snd a)"

definition elem_eq :: "'a elem_ops \<Rightarrow> slot \<Rightarrow> 'a \<Rightarrow> 'a \<Rightarrow> traced" where
  "elem_eq ops sl x y = (op_eq ops x y, [Eq sl])"

definition elem_lt :: "'a elem_ops \<Rightarrow> slot \<Rightarrow> 'a \<Rightarrow> 'a \<Rightarrow> traced" where
  "elem_lt ops sl x y = (op_lt ops x y, [Lt sl])"

definition operator_eq ::
  "'a elem_ops \<Rightarrow> 'b elem_ops \<Rightarrow> ('a, 'b) pair \<Rightarrow> ('a, 'b) pair \<Rightarrow> traced" where
  "operator_eq o1 o2 lhs rhs =
     and_then (elem_eq o1 First (first lhs) (first rhs))
              (elem_eq o2 Second (second lhs) (second rhs))"

definition operator_lt ::
  "'a elem_ops \<Rightarrow> 'b elem_ops \<Rightarrow> ('a, 'b) pair \<Rightarrow> ('a, 'b) pair \<Rightarrow> traced" where
  "operator_lt o1 o2 lhs rhs =
     or_else (elem_lt o1 First (first lhs) (first rhs))
             (and_then (elem_eq o1 First (first lhs) (first rhs))
                       (elem_lt o2 Second (second lhs) (second rhs)))"

definition operator_ne ::
  "'a elem_ops \<Rightarrow> 'b elem_ops \<Rightarrow> ('a, 'b) pair \<Rightarrow> ('a, 'b) pair \<Rightarrow> traced" where
  "operator_ne o1 o2 lhs rhs = negate (operator_eq o1 o2 lhs rhs)"

definition operator_gt ::
  "'a elem_ops \<Rightarrow> 'b elem_ops \<Rightarrow> ('a, 'b) pair \<Rightarrow> ('a, 'b) pair \<Rightarrow> traced" where
  "operator_gt o1 o2 lhs rhs = operator_lt o1 o2 rhs lhs"

definition operator_le ::
  "'a elem_ops \<Rightarrow> 'b elem_ops \<Rightarrow> ('a, 'b) pair \<Rightarrow> ('a, 'b) pair \<Rightarrow> traced" where
  "operator_le o1 o2 lhs rhs = negate (operator_lt o1 o2 rhs lhs)"

definition operator_ge ::
  "'a elem_ops \<Rightarrow> 'b elem_ops \<Rightarrow> ('a, 'b) pair \<Rightarrow> ('a, 'b) pair \<Rightarrow> traced" where
  "operator_ge o1 o2 lhs rhs = negate (operator_lt o1 o2 lhs rhs)"

text \<open>
  The forwarding constructor \<^verbatim>\<open>pair(Other1&& a, Other2&& b)\<close> and
  \<^verbatim>\<open>make_pair\<close>, on values.
\<close>

definition pair_ctor :: "'a \<Rightarrow> 'b \<Rightarrow> ('a, 'b) pair" where
  "pair_ctor a b = \<lparr> first = forward a, second = forward b \<rparr>"

definition make_pair :: "'a \<Rightarrow> 'b \<Rightarrow> ('a, 'b) pair" where
  "make_pair x y = pair_ctor (forward x) (forward y)"

subsection \<open>util.h: assignment and swap on objects in memory\<close>

text \<open>
  Assignment and swap compare addresses (\<^verbatim>\<open>this != &rhs\<close>), so the pairs live in
  a store indexed by address; \<open>trace\<close> lists the element operations performed.
\<close>

type_synonym addr = nat

record ('a, 'b) memory =
  store :: "addr \<Rightarrow> ('a, 'b) pair"
  trace :: "event list"

definition get_first :: "('a, 'b) memory \<Rightarrow> addr \<Rightarrow> 'a" where
  "get_first m p = first (store m p)"

definition get_second :: "('a, 'b) memory \<Rightarrow> addr \<Rightarrow> 'b" where
  "get_second m p = second (store m p)"

definition set_first :: "addr \<Rightarrow> 'a \<Rightarrow> ('a, 'b) memory \<Rightarrow> ('a, 'b) memory" where
  "set_first p v m = m\<lparr>store := (store m)(p := (store m p)\<lparr>first := v\<rparr>)\<rparr>"

definition set_second :: "addr \<Rightarrow> 'b \<Rightarrow> ('a, 'b) memory \<Rightarrow> ('a, 'b) memory" where
  "set_second p v m = m\<lparr>store := (store m)(p := (store m p)\<lparr>second := v\<rparr>)\<rparr>"

definition emit :: "event \<Rightarrow> ('a, 'b) memory \<Rightarrow> ('a, 'b) memory" where
  "emit e m = m\<lparr>trace := trace m @ [e]\<rparr>"

text \<open>
  \<^verbatim>\<open>first = rhs.first\<close> and \<^verbatim>\<open>first = mystl::move(rhs.first)\<close>, for the member
  read by \<open>rd\<close> and written by \<open>wr\<close>. The two objects are distinct wherever pair
  calls these (the callers test the addresses first).
\<close>

definition elem_copy_assign ::
  "'x elem_ops \<Rightarrow> (('a, 'b) memory \<Rightarrow> addr \<Rightarrow> 'x) \<Rightarrow>
   (addr \<Rightarrow> 'x \<Rightarrow> ('a, 'b) memory \<Rightarrow> ('a, 'b) memory) \<Rightarrow>
   slot \<Rightarrow> addr \<Rightarrow> addr \<Rightarrow> ('a, 'b) memory \<Rightarrow> ('a, 'b) memory" where
  "elem_copy_assign ops rd wr sl dst src m =
     emit (CopyAssign sl) (wr dst (copy_assign ops (rd m dst) (rd m src)) m)"

definition elem_move_assign ::
  "'x elem_ops \<Rightarrow> (('a, 'b) memory \<Rightarrow> addr \<Rightarrow> 'x) \<Rightarrow>
   (addr \<Rightarrow> 'x \<Rightarrow> ('a, 'b) memory \<Rightarrow> ('a, 'b) memory) \<Rightarrow>
   slot \<Rightarrow> addr \<Rightarrow> addr \<Rightarrow> ('a, 'b) memory \<Rightarrow> ('a, 'b) memory" where
  "elem_move_assign ops rd wr sl dst src m =
     (let (d, s) = move_assign ops (rd m dst) (rd m src)
      in emit (MoveAssign sl) (wr dst d (wr src s m)))"

text \<open>
  \<^verbatim>\<open>mystl::swap(Tp& lhs, Tp& rhs)\<close>:
  \<^verbatim>\<open>auto tmp(move(lhs)); lhs = move(rhs); rhs = move(tmp);\<close>
\<close>

definition swap ::
  "'x elem_ops \<Rightarrow> (('a, 'b) memory \<Rightarrow> addr \<Rightarrow> 'x) \<Rightarrow>
   (addr \<Rightarrow> 'x \<Rightarrow> ('a, 'b) memory \<Rightarrow> ('a, 'b) memory) \<Rightarrow>
   slot \<Rightarrow> addr \<Rightarrow> addr \<Rightarrow> ('a, 'b) memory \<Rightarrow> ('a, 'b) memory" where
  "swap ops rd wr sl lhs rhs m =
     (let (tmp, l) = move_construct ops (rd m lhs);
          m1 = emit (MoveConstruct sl) (wr lhs l m);
          (l', r) = move_assign ops (rd m1 lhs) (rd m1 rhs);
          m2 = emit (MoveAssign sl) (wr lhs l' (wr rhs r m1));
          (r', tmp') = move_assign ops (rd m2 rhs) tmp
      in emit (MoveAssign sl) (wr rhs r' m2))"

text \<open>
  \<^verbatim>\<open>pair& operator=(const pair& rhs)\<close>, \<^verbatim>\<open>pair& operator=(pair&& rhs)\<close>
  (both return \<^verbatim>\<open>*this\<close>) and \<^verbatim>\<open>void swap(pair& other)\<close>.
\<close>

definition copy_assign_pair ::
  "'a elem_ops \<Rightarrow> 'b elem_ops \<Rightarrow> addr \<Rightarrow> addr \<Rightarrow> ('a, 'b) memory \<Rightarrow> addr \<times> ('a, 'b) memory" where
  "copy_assign_pair o1 o2 this rhs m =
     (if this \<noteq> rhs
      then (this, elem_copy_assign o2 get_second set_second Second this rhs
                    (elem_copy_assign o1 get_first set_first First this rhs m))
      else (this, m))"

definition move_assign_pair ::
  "'a elem_ops \<Rightarrow> 'b elem_ops \<Rightarrow> addr \<Rightarrow> addr \<Rightarrow> ('a, 'b) memory \<Rightarrow> addr \<times> ('a, 'b) memory" where
  "move_assign_pair o1 o2 this rhs m =
     (if this \<noteq> rhs
      then (this, elem_move_assign o2 get_second set_second Second this rhs
                    (elem_move_assign o1 get_first set_first First this rhs m))
      else (this, m))"

definition pair_swap ::
  "'a elem_ops \<Rightarrow> 'b elem_ops \<Rightarrow> addr \<Rightarrow> addr \<Rightarrow> ('a, 'b) memory \<Rightarrow> ('a, 'b) memory" where
  "pair_swap o1 o2 this other m =
     (if this \<noteq> other
      then swap o2 get_second set_second Second this other
             (swap o1 get_first set_first First this other m)
      else m)"

subsection \<open>Two element types to run the definitions on\<close>

text \<open>
  \<^verbatim>\<open>int\<close>, whose moves are copies, and a string type with value equality,
  byte-wise lexicographic order and moves that leave the source empty.
\<close>

definition int_ops :: "int elem_ops" where
  "int_ops = \<lparr> op_eq = (=), op_lt = (<), copy_assign = (\<lambda>dst src. src),
               move_assign = (\<lambda>dst src. (src, src)), move_construct = (\<lambda>src. (src, src)) \<rparr>"

fun string_less :: "string \<Rightarrow> string \<Rightarrow> bool" where
  "string_less [] [] = False"
| "string_less [] (y # ys) = True"
| "string_less (x # xs) [] = False"
| "string_less (x # xs) (y # ys) =
     (of_char x < (of_char y :: nat) \<or> (x = y \<and> string_less xs ys))"

definition string_ops :: "string elem_ops" where
  "string_ops = \<lparr> op_eq = (=), op_lt = string_less, copy_assign = (\<lambda>dst src. src),
               move_assign = (\<lambda>dst src. (src, [])), move_construct = (\<lambda>src. (src, [])) \<rparr>"

definition two_pairs :: "(int, string) memory" where
  "two_pairs = \<lparr> store = (\<lambda>p. if p = 0 then \<lparr> first = 3, second = ''old'' \<rparr>
                                else \<lparr> first = 7, second = ''new'' \<rparr>),
                 trace = [] \<rparr>"

section \<open>Properties\<close>

subsection \<open>Helper lemmas\<close>

lemmas traced_defs = and_then_def or_else_def negate_def elem_eq_def elem_lt_def

lemmas memory_defs = get_first_def get_second_def set_first_def set_second_def emit_def

lemmas rule_defs =
  same_type_implicit_if_def same_type_explicit_if_def
  forward_implicit_if_def forward_explicit_if_def
  pair_copy_implicit_if_def pair_copy_explicit_if_def
  pair_move_implicit_if_def pair_move_explicit_if_def

lemmas trait_defs =
  is_copy_constructible_def is_constructible_def is_convertible_def declval_def

lemma unat_mult_wraps:
  "unat (n * sz) = storage_for n sz mod 2 ^ LENGTH('w)" for n sz :: "'w::len word"
  by (simp add: storage_for_def unat_word_ariths)

lemma unat_mult_overflow:
  fixes n sz :: "'w::len word"
  assumes "0 < sz" and "SIZE_MAX div sz < n"
  shows "unat (n * sz) < storage_for n sz"
proof -
  have "unat ((- 1) div sz) < unat n"
    using assms(2) by (simp add: SIZE_MAX_def word_less_nat_alt)
  hence "(2 ^ LENGTH('w) - 1) div unat sz < unat n"
    by (simp add: unat_div unsigned_minus_1_eq_mask mask_eq_exp_minus_1)
  moreover have "0 < unat sz"
    using assms(1) by (simp add: word_less_nat_alt)
  ultimately have "2 ^ LENGTH('w) - 1 < unat n * unat sz"
    by (metis div_less_iff_less_mult mult.commute)
  hence "2 ^ LENGTH('w) \<le> unat n * unat sz"
    by simp
  moreover have "unat (n * sz) < 2 ^ LENGTH('w)"
    by (rule unsigned_less)
  ultimately show ?thesis
    unfolding storage_for_def by linarith
qed

lemma unat_mult_exact:
  fixes n sz :: "'w::len word"
  assumes "0 < sz" and "n \<le> SIZE_MAX div sz"
  shows "unat (n * sz) = storage_for n sz"
proof -
  have "unat n \<le> unat ((- 1) div sz)"
    using assms(2) by (simp add: SIZE_MAX_def word_le_nat_alt)
  hence "unat n \<le> (2 ^ LENGTH('w) - 1) div unat sz"
    by (simp add: unat_div unsigned_minus_1_eq_mask mask_eq_exp_minus_1)
  moreover have "0 < unat sz"
    using assms(1) by (simp add: word_less_nat_alt)
  ultimately have "unat n * unat sz \<le> 2 ^ LENGTH('w) - 1"
    by (simp add: less_eq_div_iff_mult_less_eq)
  hence "unat n * unat sz < 2 ^ LENGTH('w)"
    by (simp add: Nat.le_diff_conv2 Suc_le_eq)
  thus ?thesis
    by (simp add: storage_for_def unat_word_ariths)
qed

lemma allocate_n_calls:
  "n \<noteq> 0 \<Longrightarrow> snd (allocate_n os sz n s) = s @ [OperatorNew (n * sz)]"
  by (simp add: allocate_n_def operator_new_def split: option.splits)

lemma allocate_n_result:
  "n \<noteq> 0 \<Longrightarrow> fst (allocate_n os sz n s) =
     (case os s (n * sz) of None \<Rightarrow> Inl BadAlloc | Some p \<Rightarrow> Inr p)"
  by (simp add: allocate_n_def operator_new_def split: option.splits)

lemma declval_add_rvalue_reference: "declval (add_rvalue_reference T) = declval T"
  by (cases T; cases "ref T") (auto simp: declval_def)

lemma is_convertible_rvalue_reference:
  "is_convertible L (add_rvalue_reference From) To = is_convertible L From To"
  by (simp add: is_convertible_def declval_add_rvalue_reference)

lemma operator_eq_value:
  "fst (operator_eq o1 o2 p q) =
     (op_eq o1 (first p) (first q) \<and> op_eq o2 (second p) (second q))"
  by (simp add: operator_eq_def traced_defs)

lemma operator_eq_trace:
  "snd (operator_eq o1 o2 p q) =
     (if op_eq o1 (first p) (first q) then [Eq First, Eq Second] else [Eq First])"
  by (simp add: operator_eq_def traced_defs)

lemma operator_lt_value:
  "fst (operator_lt o1 o2 p q) =
     (op_lt o1 (first p) (first q) \<or>
      (op_eq o1 (first p) (first q) \<and> op_lt o2 (second p) (second q)))"
  by (simp add: operator_lt_def traced_defs)

lemma operator_lt_trace:
  "snd (operator_lt o1 o2 p q) =
     (if op_lt o1 (first p) (first q) then [Lt First]
      else if op_eq o1 (first p) (first q) then [Lt First, Eq First, Lt Second]
      else [Lt First, Eq First])"
  by (simp add: operator_lt_def traced_defs)

lemma copy_assign_pair_distinct:
  assumes "this \<noteq> rhs"
  shows "store (snd (copy_assign_pair o1 o2 this rhs m)) =
          (store m)(this := \<lparr> first = copy_assign o1 (first (store m this)) (first (store m rhs)),
                              second = copy_assign o2 (second (store m this)) (second (store m rhs)) \<rparr>)"
    and "trace (snd (copy_assign_pair o1 o2 this rhs m)) =
          trace m @ [CopyAssign First, CopyAssign Second]"
  using assms
  by (simp_all add: copy_assign_pair_def elem_copy_assign_def memory_defs fun_eq_iff)

lemma move_assign_pair_distinct:
  assumes "this \<noteq> rhs"
  shows "store (snd (move_assign_pair o1 o2 this rhs m)) =
          (store m)
            (this := \<lparr> first = fst (move_assign o1 (first (store m this)) (first (store m rhs))),
                        second = fst (move_assign o2 (second (store m this)) (second (store m rhs))) \<rparr>,
             rhs := \<lparr> first = snd (move_assign o1 (first (store m this)) (first (store m rhs))),
                       second = snd (move_assign o2 (second (store m this)) (second (store m rhs))) \<rparr>)"
    and "trace (snd (move_assign_pair o1 o2 this rhs m)) =
          trace m @ [MoveAssign First, MoveAssign Second]"
  using assms
  by (simp_all add: move_assign_pair_def elem_move_assign_def memory_defs fun_eq_iff
        split: prod.splits)

subsection \<open>Constructor dispatch\<close>

text \<open>
  C1, as stated, at \<^verbatim>\<open>pair<int, int>(1, 2)\<close>: the same-type implicit constructor
  \<^verbatim>\<open>pair(const int&, const int&)\<close> and the forwarding implicit constructor
  \<^verbatim>\<open>pair(Other1&&, Other2&&)\<close> with \<^verbatim>\<open>Other1 = Other2 = int\<close> have both
  their \<^verbatim>\<open>enable_if\<close> condition true, so the conditions of the rules are not
  pairwise disjoint: two different rules are enabled for one call.
\<close>

theorem ctor_rules_overlap:
  "enabled meters_rules int_type int_type int_type int_type SameTypeImplicit \<and>
   enabled meters_rules int_type int_type int_type int_type ForwardImplicit \<and>
   SameTypeImplicit \<noteq> ForwardImplicit"
  by (simp add: rule_defs trait_defs meters_rules_def int_type_def)

text \<open>
  C1, amended: within each family of constructors (same-type, forwarding, from a
  \<^verbatim>\<open>const pair<Other1, Other2>&\<close>, from a \<^verbatim>\<open>pair<Other1, Other2>&&\<close>) the
  implicit and the explicit rule are never enabled together, and one of the two is
  enabled exactly when the family's constructibility condition holds: the
  convertibility part of the explicit rule is the negation of the implicit rule's.
  Nothing is said about rules of different families, which overload resolution
  chooses between.
\<close>

theorem ctor_rules_split:
  "\<not> (enabled L Ty1 Ty2 O1 O2 SameTypeImplicit \<and> enabled L Ty1 Ty2 O1 O2 SameTypeExplicit) \<and>
   ((enabled L Ty1 Ty2 O1 O2 SameTypeImplicit \<or> enabled L Ty1 Ty2 O1 O2 SameTypeExplicit) =
      (is_copy_constructible L Ty1 \<and> is_copy_constructible L Ty2)) \<and>
   \<not> (enabled L Ty1 Ty2 O1 O2 ForwardImplicit \<and> enabled L Ty1 Ty2 O1 O2 ForwardExplicit) \<and>
   ((enabled L Ty1 Ty2 O1 O2 ForwardImplicit \<or> enabled L Ty1 Ty2 O1 O2 ForwardExplicit) =
      (is_constructible L Ty1 O1 \<and> is_constructible L Ty2 O2)) \<and>
   \<not> (enabled L Ty1 Ty2 O1 O2 PairCopyImplicit \<and> enabled L Ty1 Ty2 O1 O2 PairCopyExplicit) \<and>
   ((enabled L Ty1 Ty2 O1 O2 PairCopyImplicit \<or> enabled L Ty1 Ty2 O1 O2 PairCopyExplicit) =
      (is_constructible L Ty1 (add_lvalue_reference (add_const O1)) \<and>
       is_constructible L Ty2 (add_lvalue_reference (add_const O2)))) \<and>
   \<not> (enabled L Ty1 Ty2 O1 O2 PairMoveImplicit \<and> enabled L Ty1 Ty2 O1 O2 PairMoveExplicit) \<and>
   ((enabled L Ty1 Ty2 O1 O2 PairMoveImplicit \<or> enabled L Ty1 Ty2 O1 O2 PairMoveExplicit) =
      (is_constructible L Ty1 O1 \<and> is_constructible L Ty2 O2))"
proof -
  have same: "\<not> (enabled L Ty1 Ty2 O1 O2 SameTypeImplicit \<and> enabled L Ty1 Ty2 O1 O2 SameTypeExplicit)"
    "(enabled L Ty1 Ty2 O1 O2 SameTypeImplicit \<or> enabled L Ty1 Ty2 O1 O2 SameTypeExplicit) =
      (is_copy_constructible L Ty1 \<and> is_copy_constructible L Ty2)"
    by (auto simp: same_type_implicit_if_def same_type_explicit_if_def)
  have fwd: "\<not> (enabled L Ty1 Ty2 O1 O2 ForwardImplicit \<and> enabled L Ty1 Ty2 O1 O2 ForwardExplicit)"
    "(enabled L Ty1 Ty2 O1 O2 ForwardImplicit \<or> enabled L Ty1 Ty2 O1 O2 ForwardExplicit) =
      (is_constructible L Ty1 O1 \<and> is_constructible L Ty2 O2)"
    by (auto simp: forward_implicit_if_def forward_explicit_if_def
          is_convertible_rvalue_reference)
  have cp: "\<not> (enabled L Ty1 Ty2 O1 O2 PairCopyImplicit \<and> enabled L Ty1 Ty2 O1 O2 PairCopyExplicit)"
    "(enabled L Ty1 Ty2 O1 O2 PairCopyImplicit \<or> enabled L Ty1 Ty2 O1 O2 PairCopyExplicit) =
      (is_constructible L Ty1 (add_lvalue_reference (add_const O1)) \<and>
       is_constructible L Ty2 (add_lvalue_reference (add_const O2)))"
    by (auto simp: pair_copy_implicit_if_def pair_copy_explicit_if_def)
  have mv: "\<not> (enabled L Ty1 Ty2 O1 O2 PairMoveImplicit \<and> enabled L Ty1 Ty2 O1 O2 PairMoveExplicit)"
    "(enabled L Ty1 Ty2 O1 O2 PairMoveImplicit \<or> enabled L Ty1 Ty2 O1 O2 PairMoveExplicit) =
      (is_constructible L Ty1 O1 \<and> is_constructible L Ty2 O2)"
    by (auto simp: pair_move_implicit_if_def pair_move_explicit_if_def)
  from same fwd cp mv show ?thesis
    by blast
qed

text \<open>
  The theorem at \<^verbatim>\<open>pair<Meters, int>\<close> built from two \<^verbatim>\<open>int\<close> rvalues, or
  from a \<^verbatim>\<open>pair<int, int>\<close>: \<^verbatim>\<open>Meters\<close> is constructible from \<^verbatim>\<open>int\<close>
  but not convertible, so in the forwarding family and in both cross-pair families
  the explicit rule is the enabled one; the same-type family has its implicit rule
  enabled.
\<close>

theorem ctor_rules_split_witness:
  "is_copy_constructible meters_rules meters_type \<and>
   is_constructible meters_rules meters_type int_type \<and>
   \<not> is_convertible meters_rules int_type meters_type \<and>
   enabled meters_rules meters_type int_type int_type int_type SameTypeImplicit \<and>
   \<not> enabled meters_rules meters_type int_type int_type int_type SameTypeExplicit \<and>
   enabled meters_rules meters_type int_type int_type int_type ForwardExplicit \<and>
   \<not> enabled meters_rules meters_type int_type int_type int_type ForwardImplicit \<and>
   enabled meters_rules meters_type int_type int_type int_type PairCopyExplicit \<and>
   \<not> enabled meters_rules meters_type int_type int_type int_type PairCopyImplicit \<and>
   enabled meters_rules meters_type int_type int_type int_type PairMoveExplicit \<and>
   \<not> enabled meters_rules meters_type int_type int_type int_type PairMoveImplicit"
proof -
  have traits: "is_copy_constructible meters_rules meters_type"
    "is_constructible meters_rules meters_type int_type"
    "\<not> is_convertible meters_rules int_type meters_type"
    by (simp_all add: trait_defs meters_rules_def int_type_def meters_type_def)
  have "enabled meters_rules meters_type int_type int_type int_type SameTypeImplicit"
    and "enabled meters_rules meters_type int_type int_type int_type ForwardExplicit"
    and "enabled meters_rules meters_type int_type int_type int_type PairCopyExplicit"
    and "enabled meters_rules meters_type int_type int_type int_type PairMoveExplicit"
    by (simp_all add: rule_defs trait_defs meters_rules_def int_type_def meters_type_def)
  with traits ctor_rules_split [of meters_rules meters_type int_type int_type int_type]
  show ?thesis
    by blast
qed

subsection \<open>Comparison of pairs\<close>

text \<open>
  C2: \<^verbatim>\<open>p == q\<close> is true exactly when both elements are equal, and when the
  first elements differ the only element comparison made is the one of the first
  elements; \<^verbatim>\<open>p < q\<close> is true exactly when \<^verbatim>\<open>p.first < q.first\<close>, or
  \<^verbatim>\<open>p.first == q.first\<close> and \<^verbatim>\<open>p.second < q.second\<close>, and the second
  elements are compared only after the first elements were found not less and equal.
\<close>

theorem pair_eq_lt_lexicographic:
  "fst (operator_eq o1 o2 p q) =
     (op_eq o1 (first p) (first q) \<and> op_eq o2 (second p) (second q)) \<and>
   (\<not> op_eq o1 (first p) (first q) \<longrightarrow> snd (operator_eq o1 o2 p q) = [Eq First]) \<and>
   fst (operator_lt o1 o2 p q) =
     (op_lt o1 (first p) (first q) \<or>
      (op_eq o1 (first p) (first q) \<and> op_lt o2 (second p) (second q))) \<and>
   (Lt Second \<in> set (snd (operator_lt o1 o2 p q)) \<longrightarrow>
      \<not> op_lt o1 (first p) (first q) \<and> op_eq o1 (first p) (first q))"
proof -
  have "\<not> op_eq o1 (first p) (first q) \<longrightarrow> snd (operator_eq o1 o2 p q) = [Eq First]"
    by (simp add: operator_eq_trace)
  moreover have "Lt Second \<in> set (snd (operator_lt o1 o2 p q)) \<longrightarrow>
      \<not> op_lt o1 (first p) (first q) \<and> op_eq o1 (first p) (first q)"
    by (simp add: operator_lt_trace)
  ultimately show ?thesis
    using operator_eq_value [of o1 o2 p q] operator_lt_value [of o1 o2 p q] by blast
qed

theorem pair_eq_lt_lexicographic_witness:
  "\<not> op_eq int_ops (2::int) 1 \<and>
   snd (operator_eq int_ops string_ops \<lparr>first = 2, second = ''a''\<rparr> \<lparr>first = 1, second = ''z''\<rparr>)
     = [Eq First] \<and>
   \<not> fst (operator_eq int_ops string_ops \<lparr>first = 2, second = ''a''\<rparr> \<lparr>first = 1, second = ''z''\<rparr>) \<and>
   \<not> fst (operator_lt int_ops string_ops \<lparr>first = 2, second = ''a''\<rparr> \<lparr>first = 1, second = ''z''\<rparr>)"
  using pair_eq_lt_lexicographic
    [of int_ops string_ops "\<lparr>first = 2, second = ''a''\<rparr>" "\<lparr>first = 1, second = ''z''\<rparr>"]
  by (simp add: int_ops_def string_ops_def)

text \<open>
  C3: \<^verbatim>\<open>!=\<close>, \<^verbatim>\<open>>\<close>, \<^verbatim>\<open><=\<close> and \<^verbatim>\<open>>=\<close> are computed from
  \<^verbatim>\<open>==\<close> and \<^verbatim>\<open><\<close>: \<open>(p \<noteq> q) = \<not> (p = q)\<close>, \<open>(p > q) = (q < p)\<close>,
  \<open>(p \<le> q) = \<not> (q < p)\<close>, \<open>(p \<ge> q) = \<not> (p < q)\<close>, and each makes exactly the
  element comparisons of the operator it is derived from.
\<close>

theorem pair_relational_derived:
  "fst (operator_ne o1 o2 p q) = (\<not> fst (operator_eq o1 o2 p q)) \<and>
   snd (operator_ne o1 o2 p q) = snd (operator_eq o1 o2 p q) \<and>
   operator_gt o1 o2 p q = operator_lt o1 o2 q p \<and>
   fst (operator_le o1 o2 p q) = (\<not> fst (operator_lt o1 o2 q p)) \<and>
   snd (operator_le o1 o2 p q) = snd (operator_lt o1 o2 q p) \<and>
   fst (operator_ge o1 o2 p q) = (\<not> fst (operator_lt o1 o2 p q)) \<and>
   snd (operator_ge o1 o2 p q) = snd (operator_lt o1 o2 p q)"
  by (simp add: operator_ne_def operator_gt_def operator_le_def operator_ge_def negate_def)

theorem pair_relational_derived_witness:
  "fst (operator_ne int_ops string_ops \<lparr>first = 1, second = ''b''\<rparr> \<lparr>first = 1, second = ''c''\<rparr>) \<and>
   \<not> fst (operator_gt int_ops string_ops \<lparr>first = 1, second = ''b''\<rparr> \<lparr>first = 1, second = ''c''\<rparr>) \<and>
   fst (operator_le int_ops string_ops \<lparr>first = 1, second = ''b''\<rparr> \<lparr>first = 1, second = ''c''\<rparr>) \<and>
   \<not> fst (operator_ge int_ops string_ops \<lparr>first = 1, second = ''b''\<rparr> \<lparr>first = 1, second = ''c''\<rparr>)"
  using pair_relational_derived
    [of int_ops string_ops "\<lparr>first = 1, second = ''b''\<rparr>" "\<lparr>first = 1, second = ''c''\<rparr>"]
  by (simp add: operator_eq_value operator_lt_value int_ops_def string_ops_def)

subsection \<open>Assignment and swap\<close>

text \<open>
  C4: copy assignment and move assignment of a pair to itself, and swapping a pair
  with itself, return with the memory as it was and without having run any element
  operation (the address test comes first); between two different pairs the
  assignment runs the element assignment of \<open>first\<close>, then that of \<open>second\<close>, and
  nothing else, leaving in the destination what the element assignments produce.
\<close>

theorem pair_assign_identity_checked:
  "copy_assign_pair o1 o2 p p m = (p, m) \<and>
   move_assign_pair o1 o2 p p m = (p, m) \<and>
   pair_swap o1 o2 p p m = m \<and>
   (this \<noteq> rhs \<longrightarrow>
      store (snd (copy_assign_pair o1 o2 this rhs m)) =
        (store m)(this := \<lparr> first = copy_assign o1 (first (store m this)) (first (store m rhs)),
                            second = copy_assign o2 (second (store m this)) (second (store m rhs)) \<rparr>) \<and>
      trace (snd (copy_assign_pair o1 o2 this rhs m)) =
        trace m @ [CopyAssign First, CopyAssign Second] \<and>
      store (snd (move_assign_pair o1 o2 this rhs m)) =
        (store m)
          (this := \<lparr> first = fst (move_assign o1 (first (store m this)) (first (store m rhs))),
                      second = fst (move_assign o2 (second (store m this)) (second (store m rhs))) \<rparr>,
           rhs := \<lparr> first = snd (move_assign o1 (first (store m this)) (first (store m rhs))),
                     second = snd (move_assign o2 (second (store m this)) (second (store m rhs))) \<rparr>) \<and>
      trace (snd (move_assign_pair o1 o2 this rhs m)) =
        trace m @ [MoveAssign First, MoveAssign Second])"
proof -
  have "copy_assign_pair o1 o2 p p m = (p, m)"
    by (simp add: copy_assign_pair_def)
  moreover have "move_assign_pair o1 o2 p p m = (p, m)"
    by (simp add: move_assign_pair_def)
  moreover have "pair_swap o1 o2 p p m = m"
    by (simp add: pair_swap_def)
  ultimately show ?thesis
    using copy_assign_pair_distinct [of this rhs o1 o2 m]
      move_assign_pair_distinct [of this rhs o1 o2 m]
    by blast
qed

theorem pair_assign_identity_checked_witness:
  "(0::nat) \<noteq> 1 \<and>
   copy_assign_pair int_ops string_ops 0 0 two_pairs = (0, two_pairs) \<and>
   pair_swap int_ops string_ops 0 0 two_pairs = two_pairs \<and>
   store (snd (copy_assign_pair int_ops string_ops 0 1 two_pairs)) 0 =
     \<lparr> first = 7, second = ''new'' \<rparr> \<and>
   store (snd (move_assign_pair int_ops string_ops 0 1 two_pairs)) 0 =
     \<lparr> first = 7, second = ''new'' \<rparr> \<and>
   store (snd (move_assign_pair int_ops string_ops 0 1 two_pairs)) 1 =
     \<lparr> first = 7, second = '''' \<rparr> \<and>
   trace (snd (move_assign_pair int_ops string_ops 0 1 two_pairs)) =
     [MoveAssign First, MoveAssign Second]"
  using pair_assign_identity_checked [of int_ops string_ops 0 two_pairs 0 1]
  by (simp add: int_ops_def string_ops_def two_pairs_def)

subsection \<open>make\_pair\<close>

text \<open>
  C9: \<^verbatim>\<open>make_pair(x, y).first\<close> is \<open>x\<close> and \<^verbatim>\<open>make_pair(x, y).second\<close> is
  \<open>y\<close>: both arguments are forwarded to the forwarding constructor, whose member
  initializers take \<open>first\<close> from the first and \<open>second\<close> from the second. An
  element initialized from a forwarded argument has the value of that argument.
\<close>

theorem make_pair_round_trip:
  "first (make_pair x y) = x \<and> second (make_pair x y) = y"
  by (simp add: make_pair_def pair_ctor_def forward_def)

subsection \<open>is\_pair\<close>

text \<open>
  C8: \<^verbatim>\<open>is_pair<T>::value\<close> is true exactly when \<open>T\<close> is
  \<^verbatim>\<open>mystl::pair<T1, T2>\<close> for some \<open>T1\<close>, \<open>T2\<close>; in particular it is false for
  a class that only has members named \<open>first\<close> and \<open>second\<close>, whatever its name
  and qualification.
\<close>

theorem is_pair_exactly_pair:
  "is_pair T = (\<exists>T1 T2. T = CType (PairOf T1 T2) False NoRef) \<and>
   \<not> is_pair (CType (Class name [(''first'', A), (''second'', B)]) c r)"
proof -
  have "is_pair T = (\<exists>T1 T2. T = CType (PairOf T1 T2) False NoRef)"
    by (cases T rule: is_pair.cases) (simp_all add: m_true_type_def m_false_type_def)
  moreover have "\<not> is_pair (CType (Class name [(''first'', A), (''second'', B)]) c r)"
    by (simp add: m_false_type_def)
  ultimately show ?thesis
    by blast
qed

subsection \<open>Allocation\<close>

text \<open>
  C5, as stated, on a 64-bit platform with \<^verbatim>\<open>sizeof(T) = 2\<close> and
  \<open>n = 2\<^sup>6\<^sup>3\<close>: \<open>n \<ge> 1\<close>, and the one request made to the system allocator is
  for 0 bytes, not for the \<open>2\<^sup>6\<^sup>4\<close> bytes that \<open>n\<close> instances occupy.
\<close>

theorem allocate_n_request_too_small:
  "(1::64 word) \<le> 2 ^ 63 \<and>
   snd (allocate_n bump_new (2::64 word) (2 ^ 63) []) = [OperatorNew 0] \<and>
   unat (0::64 word) < storage_for ((2::64 word) ^ 63) 2"
  by (simp add: allocate_n_def operator_new_def bump_new_def storage_for_def)

text \<open>
  C5, amended: \<^verbatim>\<open>allocate(0)\<close> returns the null pointer and makes no call to the
  system allocator; \<^verbatim>\<open>allocate(n)\<close> for \<open>n \<ge> 1\<close> makes exactly one call,
  \<^verbatim>\<open>::operator new\<close> with \<open>n * sizeof(T)\<close> computed in \<^verbatim>\<open>size_t\<close> (that is,
  modulo \<open>2\<^sup>w\<close>), and returns what that call gives; the bytes requested are the
  storage of \<open>n\<close> instances whenever \<open>n \<le> SIZE_MAX / sizeof(T)\<close>.
\<close>

theorem allocate_n_request:
  "allocate_n os sizeof_T 0 s = (Inr nullptr, s) \<and>
   (n \<noteq> 0 \<longrightarrow>
      snd (allocate_n os sizeof_T n s) = s @ [OperatorNew (n * sizeof_T)] \<and>
      fst (allocate_n os sizeof_T n s) =
        (case os s (n * sizeof_T) of None \<Rightarrow> Inl BadAlloc | Some p \<Rightarrow> Inr p) \<and>
      unat (n * sizeof_T) = storage_for n sizeof_T mod 2 ^ LENGTH('w)) \<and>
   (n \<noteq> 0 \<and> 0 < sizeof_T \<and> n \<le> SIZE_MAX div sizeof_T \<longrightarrow>
      unat (n * sizeof_T) = storage_for n sizeof_T)"
  for n sizeof_T :: "'w::len word"
proof -
  have "allocate_n os sizeof_T 0 s = (Inr nullptr, s)"
    by (simp add: allocate_n_def)
  thus ?thesis
    using allocate_n_calls [of n os sizeof_T s] allocate_n_result [of n os sizeof_T s]
      unat_mult_wraps [of n sizeof_T] unat_mult_exact [of sizeof_T n]
    by blast
qed

theorem allocate_n_request_witness:
  "(10::64 word) \<noteq> 0 \<and> (0::64 word) < 4 \<and> (10::64 word) \<le> SIZE_MAX div 4 \<and>
   allocate_n bump_new (4::64 word) 0 [] = (Inr nullptr, []) \<and>
   allocate_n bump_new (4::64 word) 10 [] = (Inr 4096, [OperatorNew 40]) \<and>
   storage_for (10::64 word) 4 = 40"
proof -
  have h: "(10::64 word) \<noteq> 0 \<and> (0::64 word) < 4 \<and> (10::64 word) \<le> SIZE_MAX div 4"
    by (simp add: SIZE_MAX_def)
  have "allocate_n bump_new (4::64 word) 10 [] = (Inr 4096, [OperatorNew 40])"
    using allocate_n_request [of bump_new "4::64 word" "[]" 10] h
    by (simp add: bump_new_def prod_eq_iff)
  moreover have "allocate_n bump_new (4::64 word) 0 [] = (Inr nullptr, [])"
    using allocate_n_request [of bump_new "4::64 word" "[]" 10] by blast
  moreover have "storage_for (10::64 word) 4 = 40"
    using allocate_n_request [of bump_new "4::64 word" "[]" 10] h by simp
  ultimately show ?thesis
    using h by blast
qed

text \<open>
  C10: \<^verbatim>\<open>allocate(n)\<close> passes \<open>n * sizeof(T)\<close>, computed in \<^verbatim>\<open>size_t\<close>
  without an overflow check, to \<^verbatim>\<open>::operator new\<close>; for every \<open>n\<close> greater than
  \<open>SIZE_MAX / sizeof(T)\<close> the product is the true product modulo \<open>2\<^sup>w\<close> and the
  block requested is smaller than \<open>n\<close> objects require.
\<close>

theorem allocate_n_overflow:
  fixes n sizeof_T :: "'w::len word"
  assumes "0 < sizeof_T" and "SIZE_MAX div sizeof_T < n"
  shows "snd (allocate_n os sizeof_T n s) = s @ [OperatorNew (n * sizeof_T)] \<and>
         unat (n * sizeof_T) = storage_for n sizeof_T mod 2 ^ LENGTH('w) \<and>
         unat (n * sizeof_T) < storage_for n sizeof_T"
proof -
  have "n \<noteq> 0"
    using assms(2) by auto
  hence "snd (allocate_n os sizeof_T n s) = s @ [OperatorNew (n * sizeof_T)]"
    by (rule allocate_n_calls)
  moreover have "unat (n * sizeof_T) < storage_for n sizeof_T"
    using assms by (rule unat_mult_overflow)
  ultimately show ?thesis
    by (simp add: unat_mult_wraps)
qed

theorem allocate_n_overflow_witness:
  "(0::64 word) < 8 \<and> SIZE_MAX div (8::64 word) < 2 ^ 61 + 1 \<and>
   snd (allocate_n bump_new (8::64 word) (2 ^ 61 + 1) []) = [OperatorNew 8] \<and>
   unat (8::64 word) < storage_for ((2::64 word) ^ 61 + 1) 8"
proof -
  have h: "(0::64 word) < 8" "SIZE_MAX div (8::64 word) < 2 ^ 61 + 1"
    by (simp_all add: SIZE_MAX_def)
  from allocate_n_overflow [OF h, of bump_new "[]"] h show ?thesis
    by simp
qed

subsection \<open>Deallocation\<close>

text \<open>
  C6: \<^verbatim>\<open>deallocate(nullptr)\<close> and \<^verbatim>\<open>deallocate(nullptr, n)\<close>, for every
  \<open>n\<close>, return normally and make no call to the system allocator.
\<close>

theorem deallocate_null_noop:
  "deallocate nullptr s = (Inr (), s) \<and> deallocate_n nullptr n s = (Inr (), s)"
  by (simp add: deallocate_def deallocate_n_def)

text \<open>
  C7: \<^verbatim>\<open>deallocate(ptr, n)\<close> does what \<^verbatim>\<open>deallocate(ptr)\<close> does, whatever
  \<open>n\<close> is.
\<close>

theorem deallocate_count_ignored:
  "deallocate_n ptr n s = deallocate ptr s"
  by (simp add: deallocate_def deallocate_n_def)

end
